theory Spec2Isabelle
  imports Complex_Main "HOL-Library.Word"
begin

section \<open>JavaScript values shared by the views\<close>

text \<open>
  Numbers of the source are IEEE doubles. A finite double is a real number, and the times
  and durations of the playback clock are finite, so they are values of \<^typ>\<open>real\<close>.
  Comparison and \<^verbatim>\<open>Math.max\<close> are exact on doubles; the sum of two doubles is the real
  sum rounded to the nearest double. An exception or a rejected promise is a value of
  \<open>js_error\<close> on the left of a sum.
\<close>

datatype js_error =
    Error string
  | TypeError
  | InvalidCharacterError
  | EnvError string

type_synonym Uint8Array = "8 word list"

type_synonym Int16Array = "16 word list"

text \<open>\<^verbatim>\<open>xs?.[0]\<close>: the first element, \<^verbatim>\<open>undefined\<close> on an empty array.\<close>

definition first_elem :: "'a list \<Rightarrow> 'a option" where
  "first_elem xs = (case xs of [] \<Rightarrow> None | x # _ \<Rightarrow> Some x)"

text \<open>Truthiness of an optional string: \<^verbatim>\<open>undefined\<close> and \<^verbatim>\<open>""\<close> are falsy.\<close>

definition truthy :: "string option \<Rightarrow> bool" where
  "truthy v = (case v of None \<Rightarrow> False | Some s \<Rightarrow> s \<noteq> [])"

text \<open>Update of the element at an index that exists; no effect elsewhere.\<close>

definition modify :: "nat \<Rightarrow> ('a \<Rightarrow> 'a) \<Rightarrow> 'a list \<Rightarrow> 'a list" where
  "modify i f xs = (if i < length xs then xs[i := f (xs ! i)] else xs)"

section \<open>LiveView: messages, sessions and devices\<close>

text \<open>
  \<^verbatim>\<open>msg.serverContent?.modelTurn?.parts?.[0]?.inlineData?.data\<close>: every level of a
  \<^verbatim>\<open>LiveServerMessage\<close> may be absent.
\<close>

record InlineData =
  data :: "string option"

record Part =
  inlineData :: "InlineData option"

record Content =
  parts :: "Part list option"

record LiveServerContent =
  modelTurn :: "Content option"

record LiveServerMessage =
  serverContent :: "LiveServerContent option"

definition audioData_of :: "LiveServerMessage \<Rightarrow> string option" where
  "audioData_of msg =
     Option.bind (serverContent msg) (\<lambda>sc.
     Option.bind (modelTurn sc) (\<lambda>mt.
     Option.bind (parts mt) (\<lambda>ps.
     Option.bind (first_elem ps) (\<lambda>p.
     Option.bind (inlineData p) data))))"

record AudioBuffer =
  sampleRate :: nat
  duration :: real

text \<open>
  The promise returned by \<^verbatim>\<open>ai.live.connect\<close> and the session behind it. A callback
  given to \<^verbatim>\<open>then\<close> while the promise is pending waits in \<open>reactions\<close>; the two
  callbacks of the source are the send of one encoded frame (lines 41-48) and the close
  (line 132).
\<close>

datatype promise_state = Pending | Fulfilled | Rejected

datatype reaction = SendRealtimeInput string string | Close

record Session =
  promise :: promise_state
  reactions :: "reaction list"
  realtimeInputs :: "(string \<times> string) list"
  closed :: bool

definition new_session :: Session where
  "new_session = \<lparr>promise = Pending, reactions = [], realtimeInputs = [], closed = False\<rparr>"

definition run_reaction :: "reaction \<Rightarrow> Session \<Rightarrow> Session" where
  "run_reaction r s =
     (case r of
        SendRealtimeInput mimeType d \<Rightarrow> s\<lparr>realtimeInputs := realtimeInputs s @ [(mimeType, d)]\<rparr>
      | Close \<Rightarrow> s\<lparr>closed := True\<rparr>)"

definition promise_then :: "reaction \<Rightarrow> Session \<Rightarrow> Session" where
  "promise_then r s =
     (case promise s of
        Pending \<Rightarrow> s\<lparr>reactions := reactions s @ [r]\<rparr>
      | Fulfilled \<Rightarrow> run_reaction r s
      | Rejected \<Rightarrow> s)"

definition promise_resolve :: "Session \<Rightarrow> Session" where
  "promise_resolve s =
     (if promise s = Pending
      then fold run_reaction (reactions s) (s\<lparr>promise := Fulfilled, reactions := []\<rparr>)
      else s)"

definition promise_reject :: "Session \<Rightarrow> Session" where
  "promise_reject s =
     (if promise s = Pending then s\<lparr>promise := Rejected, reactions := []\<rparr> else s)"

datatype context_state = Running | Closed

text \<open>
  What \<^verbatim>\<open>startAudioStream\<close> acquires: the 16 kHz input context, the microphone stream of
  \<^verbatim>\<open>getUserMedia\<close>, and the source/analyser/processor graph. \<open>capSession\<close> is the
  \<^verbatim>\<open>sessionPromise\<close> the processor callback closes over.
\<close>

datatype mic_state = MicRequested | MicDenied | MicLive | MicStopped

record Capture =
  capSession :: nat
  inputContext :: context_state
  micStream :: mic_state
  graphConnected :: bool

text \<open>
  The component: its two pieces of React state, its three refs, and the resources its
  handlers have created (sessions, output contexts, capture graphs, scheduled sources).
  A ref holding an object holds its index in the list of these objects.
\<close>

record LiveView =
  isConnected :: bool
  status :: string
  audioContextRef :: "nat option"
  nextStartTimeRef :: real
  sessionPromiseRef :: "nat option"
  sessions :: "Session list"
  outputContexts :: "context_state list"
  captures :: "Capture list"
  scheduled :: "(nat \<times> AudioBuffer \<times> real) list"

definition initial :: LiveView where
  "initial = \<lparr>isConnected = False, status = ''Disconnected'', audioContextRef = None,
     nextStartTimeRef = 0, sessionPromiseRef = None, sessions = [], outputContexts = [],
     captures = [], scheduled = []\<rparr>"

text \<open>
  What the handlers take from outside the component. \<open>decodeAudioData\<close>,
  \<open>float32ToPCM16\<close> and \<open>arrayBufferToBase64\<close> are the helpers imported from
  \<^verbatim>\<open>../utils/audioUtils\<close>; \<open>atob\<close> stands for line 94, base64 text to bytes;
  \<open>constructorsThrow\<close> says whether \<^verbatim>\<open>new GoogleGenAI\<close> or \<^verbatim>\<open>new AudioContext\<close>
  throws inside the \<^verbatim>\<open>try\<close> of \<^verbatim>\<open>connect\<close>.
\<close>

record LiveEnv =
  constructorsThrow :: bool
  atob :: "string \<Rightarrow> js_error + Uint8Array"
  decodeAudioData :: "Uint8Array \<Rightarrow> nat \<Rightarrow> nat \<Rightarrow> js_error + AudioBuffer"
  float32ToPCM16 :: "real list \<Rightarrow> Int16Array"
  arrayBufferToBase64 :: "Int16Array \<Rightarrow> string"

section \<open>LiveView: the handlers\<close>

text \<open>
  \<^verbatim>\<open>startAudioStream\<close>, lines 17-18: the input context is created, then the function
  waits for \<^verbatim>\<open>getUserMedia\<close>.
\<close>

definition startAudioStream :: "nat \<Rightarrow> LiveView \<Rightarrow> LiveView" where
  "startAudioStream sessionPromise st =
     st\<lparr>captures := captures st @
        [\<lparr>capSession = sessionPromise, inputContext = Running,
          micStream = MicRequested, graphConnected = False\<rparr>]\<rparr>"

text \<open>
  Lines 19-52, once \<^verbatim>\<open>getUserMedia\<close> has settled: when the microphone is granted the graph is
  built and connected; when it is denied the \<^verbatim>\<open>await\<close> throws and the rest is skipped.
\<close>

definition getUserMedia_settled :: "bool \<Rightarrow> Capture \<Rightarrow> Capture" where
  "getUserMedia_settled granted c =
     (if micStream c = MicRequested
      then (if granted then c\<lparr>micStream := MicLive, graphConnected := True\<rparr>
            else c\<lparr>micStream := MicDenied\<rparr>)
      else c)"

text \<open>Lines 54-59: the function that \<^verbatim>\<open>startAudioStream\<close> returns to its caller.\<close>

definition cleanup :: "Capture \<Rightarrow> Capture" where
  "cleanup c = c\<lparr>micStream := MicStopped, graphConnected := False, inputContext := Closed\<rparr>"

text \<open>Lines 36-49: one frame of the processor.\<close>

definition onaudioprocess :: "LiveEnv \<Rightarrow> nat \<Rightarrow> real list \<Rightarrow> LiveView \<Rightarrow> LiveView" where
  "onaudioprocess env sessionPromise inputData st =
     (let pcm16 = float32ToPCM16 env inputData;
          base64 = arrayBufferToBase64 env pcm16
      in st\<lparr>sessions := modify sessionPromise
              (promise_then (SendRealtimeInput ''audio/pcm;rate=16000'' base64)) (sessions st)\<rparr>)"

text \<open>Lines 62-128.\<close>

definition connect :: "LiveEnv \<Rightarrow> LiveView \<Rightarrow> LiveView" where
  "connect env st =
     (let st1 = st\<lparr>status := ''Connecting...''\<rparr> in
      if constructorsThrow env then st1\<lparr>status := ''Failed to connect''\<rparr>
      else
        let outCtx = length (outputContexts st1);
            st2 = st1\<lparr>outputContexts := outputContexts st1 @ [Running],
                      audioContextRef := Some outCtx,
                      nextStartTimeRef := 0\<rparr>;
            sessionPromise = length (sessions st2)
        in st2\<lparr>sessions := sessions st2 @ [new_session],
               sessionPromiseRef := Some sessionPromise\<rparr>)"

text \<open>Lines 82-87, up to the \<^verbatim>\<open>await\<close> inside \<^verbatim>\<open>startAudioStream\<close>.\<close>

definition onopen :: "nat \<Rightarrow> LiveView \<Rightarrow> LiveView" where
  "onopen sessionPromise st =
     startAudioStream sessionPromise (st\<lparr>status := ''Live'', isConnected := True\<rparr>)"

text \<open>
  Lines 88-110. \<open>Inl\<close> is the exception that leaves the handler; every statement that can
  throw comes before the first assignment. \<open>now\<close> is \<^verbatim>\<open>ctx.currentTime\<close> at line 104.
  The sum of line 108 is taken without rounding here, which keeps the order of the clock's
  values; \<open>onmessage_with\<close> below takes the addition of the engine as a parameter.
\<close>

definition onmessage :: "LiveEnv \<Rightarrow> real \<Rightarrow> LiveServerMessage \<Rightarrow> LiveView \<Rightarrow> js_error + LiveView" where
  "onmessage env now msg st =
     (let audioData = audioData_of msg in
      if truthy audioData \<and> audioContextRef st \<noteq> None then
        (case audioContextRef st of
           None \<Rightarrow> Inr st
         | Some ctx \<Rightarrow>
            (case atob env (case audioData of None \<Rightarrow> [] | Some d \<Rightarrow> d) of
               Inl e \<Rightarrow> Inl e
             | Inr bytes \<Rightarrow>
                (case decodeAudioData env bytes 24000 1 of
                   Inl e \<Rightarrow> Inl e
                 | Inr buffer \<Rightarrow>
                     let start = max now (nextStartTimeRef st)
                     in Inr (st\<lparr>scheduled := scheduled st @ [(ctx, buffer, start)],
                               nextStartTimeRef := start + duration buffer\<rparr>))))
      else Inr st)"

text \<open>Lines 111-114 and 115-119.\<close>

definition onclose :: "LiveView \<Rightarrow> LiveView" where
  "onclose st = st\<lparr>status := ''Disconnected'', isConnected := False\<rparr>"

definition onerror :: "LiveView \<Rightarrow> LiveView" where
  "onerror st = st\<lparr>status := ''Error'', isConnected := False\<rparr>"

text \<open>Lines 130-139.\<close>

definition disconnect :: "LiveView \<Rightarrow> LiveView" where
  "disconnect st =
     (let st1 = (case sessionPromiseRef st of
                   None \<Rightarrow> st
                 | Some p \<Rightarrow> st\<lparr>sessions := modify p (promise_then Close) (sessions st)\<rparr>);
          st2 = (case audioContextRef st1 of
                   None \<Rightarrow> st1
                 | Some c \<Rightarrow> st1\<lparr>outputContexts := modify c (\<lambda>_. Closed) (outputContexts st1)\<rparr>)
      in st2\<lparr>isConnected := False, status := ''Disconnected''\<rparr>)"

text \<open>Line 167: the button calls \<^verbatim>\<open>disconnect\<close> when connected and \<^verbatim>\<open>connect\<close> otherwise.\<close>

definition onClick :: "LiveEnv \<Rightarrow> LiveView \<Rightarrow> LiveView" where
  "onClick env st = (if isConnected st then disconnect st else connect env st)"

section \<open>LiveView: events\<close>

text \<open>
  What can happen to the component: the user's click, direct calls of the two lifecycle
  functions, the callbacks of a session, the settling of \<^verbatim>\<open>getUserMedia\<close> for a capture,
  one processed frame of a capture, and the settling of a session promise. A frame is
  delivered only by a capture whose graph is connected; a handler that throws leaves the
  state as it was.
\<close>

datatype event =
    Click
  | CallConnect
  | CallDisconnect
  | OnOpen nat
  | GetUserMedia nat bool
  | OnAudioProcess nat "real list"
  | OnMessage real LiveServerMessage
  | OnClose
  | OnError
  | SessionResolved nat
  | SessionRejected nat

definition step :: "LiveEnv \<Rightarrow> event \<Rightarrow> LiveView \<Rightarrow> LiveView" where
  "step env ev st =
     (case ev of
        Click \<Rightarrow> onClick env st
      | CallConnect \<Rightarrow> connect env st
      | CallDisconnect \<Rightarrow> disconnect st
      | OnOpen p \<Rightarrow> onopen p st
      | GetUserMedia c granted \<Rightarrow> st\<lparr>captures := modify c (getUserMedia_settled granted) (captures st)\<rparr>
      | OnAudioProcess c inputData \<Rightarrow>
          (if c < length (captures st) \<and> graphConnected (captures st ! c)
           then onaudioprocess env (capSession (captures st ! c)) inputData st
           else st)
      | OnMessage now msg \<Rightarrow> (case onmessage env now msg st of Inl e \<Rightarrow> st | Inr st' \<Rightarrow> st')
      | OnClose \<Rightarrow> onclose st
      | OnError \<Rightarrow> onerror st
      | SessionResolved p \<Rightarrow> st\<lparr>sessions := modify p promise_resolve (sessions st)\<rparr>
      | SessionRejected p \<Rightarrow> st\<lparr>sessions := modify p promise_reject (sessions st)\<rparr>)"

definition run :: "LiveEnv \<Rightarrow> event list \<Rightarrow> LiveView \<Rightarrow> LiveView" where
  "run env evs st = fold (step env) evs st"

section \<open>LiveView: the playback clock in the engine's arithmetic\<close>

text \<open>
  Lines 88-110 again, with the \<^verbatim>\<open>+\<close> of line 108 as the parameter \<open>add\<close>: the addition
  of two Numbers as the engine computes it (in a browser, the real sum rounded to the
  nearest double). Everything else is as in \<open>onmessage\<close>: \<^verbatim>\<open>Math.max\<close> of two finite
  doubles is the larger of them, with no rounding.
\<close>

definition onmessage_with ::
  "(real \<Rightarrow> real \<Rightarrow> real) \<Rightarrow> LiveEnv \<Rightarrow> real \<Rightarrow> LiveServerMessage \<Rightarrow> LiveView \<Rightarrow> js_error + LiveView" where
  "onmessage_with add env now msg st =
     (let audioData = audioData_of msg in
      if truthy audioData \<and> audioContextRef st \<noteq> None then
        (case audioContextRef st of
           None \<Rightarrow> Inr st
         | Some ctx \<Rightarrow>
            (case atob env (case audioData of None \<Rightarrow> [] | Some d \<Rightarrow> d) of
               Inl e \<Rightarrow> Inl e
             | Inr bytes \<Rightarrow>
                (case decodeAudioData env bytes 24000 1 of
                   Inl e \<Rightarrow> Inl e
                 | Inr buffer \<Rightarrow>
                     let start = max now (nextStartTimeRef st)
                     in Inr (st\<lparr>scheduled := scheduled st @ [(ctx, buffer, start)],
                               nextStartTimeRef := add start (duration buffer)\<rparr>))))
      else Inr st)"

text \<open>The events of the component with that handler for an inbound message.\<close>

definition step_with :: "(real \<Rightarrow> real \<Rightarrow> real) \<Rightarrow> LiveEnv \<Rightarrow> event \<Rightarrow> LiveView \<Rightarrow> LiveView" where
  "step_with add env ev st =
     (case ev of
        OnMessage now msg \<Rightarrow>
          (case onmessage_with add env now msg st of Inl e \<Rightarrow> st | Inr st' \<Rightarrow> st')
      | _ \<Rightarrow> step env ev st)"




section \<open>audioUtils: the PCM16 encoder\<close>

text \<open>
  Modelled from the spec: \<^verbatim>\<open>float32ToPCM16\<close> of \<^verbatim>\<open>utils/audioUtils\<close>, which the
  live view imports and which is not among the sources. The spec gives it sample by
  sample: a value at or above 1.0 becomes 32767, a value at or below -1.0 becomes -32768,
  a value in between becomes \<open>round (v * 32767)\<close>; the result is stored in an
  \<^verbatim>\<open>Int16Array\<close>, which keeps the low 16 bits of the integer it is given. \<open>round\<close>
  takes a half upwards, as \<^verbatim>\<open>Math.round\<close> does. A finite float32 sample is a real number,
  and its product with 32767 is exact in double precision.
\<close>

definition pcm16_of_sample :: "real \<Rightarrow> int" where
  "pcm16_of_sample v =
     (if 1 \<le> v then 32767 else if v \<le> - 1 then - 32768 else round (v * 32767))"

definition float32ToPCM16_spec :: "real list \<Rightarrow> Int16Array" where
  "float32ToPCM16_spec inputData = map (\<lambda>v. word_of_int (pcm16_of_sample v)) inputData"

section \<open>geminiService: video generation\<close>

text \<open>
  \<^verbatim>\<open>operation.response?.generatedVideos?.[0]?.video?.uri\<close>: every level of the polled
  operation may be absent; an absent \<^verbatim>\<open>done\<close> is falsy.
\<close>

record Video =
  uri :: "string option"

record GeneratedVideo =
  video :: "Video option"

record GenerateVideosResponse =
  generatedVideos :: "GeneratedVideo list option"

record Operation =
  op_done :: bool
  response :: "GenerateVideosResponse option"

datatype AspectRatio = Ratio_16_9 | Ratio_9_16

record VideoConfig =
  numberOfVideos :: nat
  resolution :: string
  aspectRatio :: AspectRatio

record ImageInput =
  imageBytes :: string
  mimeType :: string

record GenerateVideosParameters =
  model :: string
  prompt :: string
  image_in :: "ImageInput option"
  config :: VideoConfig

type_synonym Blob = Uint8Array

record FetchResponse =
  res_status :: nat
  res_body :: Uint8Array

text \<open>
  What \<^verbatim>\<open>generateVideo\<close> takes from outside: the key, the two SDK calls (each may
  reject; the answer to a poll depends on how many polls came before it), \<^verbatim>\<open>fetch\<close> and
  \<^verbatim>\<open>Response.blob\<close> (which reject with a \<^verbatim>\<open>TypeError\<close>, here \<open>None\<close>), and
  \<^verbatim>\<open>URL.createObjectURL\<close>.
\<close>

record VideoEnv =
  API_KEY :: string
  generateVideos :: "GenerateVideosParameters \<Rightarrow> js_error + Operation"
  getVideosOperation :: "nat \<Rightarrow> Operation \<Rightarrow> js_error + Operation"
  fetch :: "string \<Rightarrow> FetchResponse option"
  blob :: "FetchResponse \<Rightarrow> Blob option"
  createObjectURL :: "Blob \<Rightarrow> string"

text \<open>What the function does to the outside, in order; \<open>SetTimeout\<close> carries milliseconds.\<close>

datatype effect =
    GenerateVideos GenerateVideosParameters
  | SetTimeout nat
  | GetVideosOperation nat
  | Fetch string

text \<open>\<^verbatim>\<open>s.split(c)\<close> with a one-character separator.\<close>

fun split_on :: "char \<Rightarrow> string \<Rightarrow> string list" where
  "split_on c [] = [[]]"
| "split_on c (x # xs) =
     (if x = c then [] # split_on c xs
      else (case split_on c xs of [] \<Rightarrow> [[x]] | w # ws \<Rightarrow> (x # w) # ws))"

text \<open>Line 102: \<^verbatim>\<open>startImageBase64.split(',')[1] || startImageBase64\<close>.\<close>

definition cleanBase64 :: "string \<Rightarrow> string" where
  "cleanBase64 startImageBase64 =
     (case split_on CHR '','' startImageBase64 of
        _ # p # _ \<Rightarrow> if p \<noteq> [] then p else startImageBase64
      | _ \<Rightarrow> startImageBase64)"

text \<open>Lines 92-118: the parameters of the call that starts the operation.\<close>

definition video_parameters :: "string \<Rightarrow> AspectRatio \<Rightarrow> string option \<Rightarrow> GenerateVideosParameters" where
  "video_parameters prompt_text ratio startImageBase64 =
     (let cfg = \<lparr>numberOfVideos = 1, resolution = ''720p'', aspectRatio = ratio\<rparr> in
      if truthy startImageBase64 then
        \<lparr>model = ''veo-3.1-fast-generate-preview'',
         prompt = (if prompt_text \<noteq> [] then prompt_text else ''Animate this''),
         image_in = Some \<lparr>imageBytes = cleanBase64 (case startImageBase64 of None \<Rightarrow> [] | Some s \<Rightarrow> s),
                           mimeType = ''image/png''\<rparr>,
         config = cfg\<rparr>
      else
        \<lparr>model = ''veo-3.1-fast-generate-preview'', prompt = prompt_text,
         image_in = None, config = cfg\<rparr>)"

text \<open>
  Lines 121-124: the polling loop, which has no bound of its own; \<open>None\<close> is the loop
  that never ends. \<open>k\<close> counts the polls made so far.
\<close>

partial_function (option) poll_loop ::
  "VideoEnv \<Rightarrow> nat \<Rightarrow> Operation \<Rightarrow> effect list \<Rightarrow> ((js_error + Operation) \<times> effect list) option" where
  "poll_loop env k operation effs =
     (if \<not> op_done operation then
        (case getVideosOperation env k operation of
           Inl e \<Rightarrow> Some (Inl e, effs @ [SetTimeout 5000, GetVideosOperation k])
         | Inr operation' \<Rightarrow>
             poll_loop env (Suc k) operation' (effs @ [SetTimeout 5000, GetVideosOperation k]))
      else Some (Inr operation, effs))"

declare poll_loop.simps [code]

text \<open>Line 126.\<close>

definition downloadLink_of :: "Operation \<Rightarrow> string option" where
  "downloadLink_of operation =
     Option.bind (response operation) (\<lambda>r.
     Option.bind (generatedVideos r) (\<lambda>vs.
     Option.bind (first_elem vs) (\<lambda>v.
     Option.bind (video v) uri)))"

text \<open>Lines 126-132, on the operation the loop ended with.\<close>

definition fetch_video :: "VideoEnv \<Rightarrow> Operation \<Rightarrow> effect list \<Rightarrow> (js_error + string) \<times> effect list" where
  "fetch_video env operation effs =
     (let downloadLink = downloadLink_of operation in
      if \<not> truthy downloadLink then (Inl (Error ''Video generation failed''), effs)
      else
        let url = (case downloadLink of None \<Rightarrow> [] | Some l \<Rightarrow> l) @ ''&key='' @ API_KEY env in
        (case fetch env url of
           None \<Rightarrow> (Inl TypeError, effs @ [Fetch url])
         | Some videoRes \<Rightarrow>
            (case blob env videoRes of
               None \<Rightarrow> (Inl TypeError, effs @ [Fetch url])
             | Some videoBlob \<Rightarrow> (Inr (createObjectURL env videoBlob), effs @ [Fetch url]))))"

text \<open>Lines 88-133. \<open>Inl\<close> is the error the returned promise rejects with.\<close>

definition generateVideo ::
  "VideoEnv \<Rightarrow> string \<Rightarrow> AspectRatio \<Rightarrow> string option \<Rightarrow> ((js_error + string) \<times> effect list) option" where
  "generateVideo env prompt_text ratio startImageBase64 =
     (let params = video_parameters prompt_text ratio startImageBase64 in
      case generateVideos env params of
        Inl e \<Rightarrow> Some (Inl e, [GenerateVideos params])
      | Inr operation \<Rightarrow>
         (case poll_loop env 0 operation [GenerateVideos params] of
            None \<Rightarrow> None
          | Some (Inl e, effs) \<Rightarrow> Some (Inl e, effs)
          | Some (Inr completed, effs) \<Rightarrow> Some (fetch_video env completed effs)))"

text \<open>
  The operation the client holds after \<open>n\<close> further polls, starting from \<open>operation\<close>
  with \<open>k\<close> polls already made.
\<close>

fun polled :: "VideoEnv \<Rightarrow> nat \<Rightarrow> Operation \<Rightarrow> nat \<Rightarrow> js_error + Operation" where
  "polled env k operation 0 = Inr operation"
| "polled env k operation (Suc n) =
     (case getVideosOperation env k operation of
        Inl e \<Rightarrow> Inl e
      | Inr operation' \<Rightarrow> polled env (Suc k) operation' n)"

text \<open>The waits and polls of the loop, for the polls numbered \<open>k\<close> up to \<open>k + n - 1\<close>.\<close>

definition poll_effects :: "nat \<Rightarrow> nat \<Rightarrow> effect list" where
  "poll_effects k n = concat (map (\<lambda>j. [SetTimeout 5000, GetVideosOperation j]) [k..<k + n])"

text \<open>
  After \<open>m\<close> further polls the client holds an operation, and it is not done.
\<close>

definition running_at :: "VideoEnv \<Rightarrow> nat \<Rightarrow> Operation \<Rightarrow> nat \<Rightarrow> bool" where
  "running_at env k operation m =
     (case polled env k operation m of Inl e \<Rightarrow> False | Inr op \<Rightarrow> \<not> op_done op)"

text \<open>None of the first \<open>n\<close> operations the client holds is done, and no poll has failed.\<close>

definition running_before :: "VideoEnv \<Rightarrow> Operation \<Rightarrow> nat \<Rightarrow> bool" where
  "running_before env operation n =
     list_all (\<lambda>m. case polled env 0 operation m of Inl e \<Rightarrow> False | Inr op \<Rightarrow> \<not> op_done op)
       [0..<n]"

text \<open>
  The effects of a run that starts the operation with \<open>params\<close>, polls \<open>n\<close> times and
  ends with \<open>completed\<close>: the fetch is there when line 127 does not throw.
\<close>

definition completed_run_effects ::
  "VideoEnv \<Rightarrow> GenerateVideosParameters \<Rightarrow> nat \<Rightarrow> Operation \<Rightarrow> effect list" where
  "completed_run_effects env params n completed =
     GenerateVideos params # poll_effects 0 n @
     (case downloadLink_of completed of
        None \<Rightarrow> []
      | Some u \<Rightarrow> if u = [] then [] else [Fetch (u @ ''&key='' @ API_KEY env)])"

text \<open>
  Operations and an environment for concrete runs: the operation completes at the second
  poll, and the download link is fetched when its address is the expected one.
\<close>

definition running_operation :: Operation where
  "running_operation = \<lparr>op_done = False, response = None\<rparr>"

definition completed_operation :: "string option \<Rightarrow> Operation" where
  "completed_operation link = \<lparr>op_done = True, response = Some \<lparr>generatedVideos = Some
     [\<lparr>video = Some \<lparr>uri = link\<rparr>\<rparr>]\<rparr>\<rparr>"

definition example_video_env :: "string option \<Rightarrow> bool \<Rightarrow> VideoEnv" where
  "example_video_env link online = \<lparr>API_KEY = ''K'',
     generateVideos = (\<lambda>params. Inr running_operation),
     getVideosOperation = (\<lambda>k operation. if k = 0 then Inr running_operation
                                          else Inr (completed_operation link)),
     fetch = (\<lambda>url. if online then Some \<lparr>res_status = 200, res_body = [1, 2, 3]\<rparr> else None),
     blob = (\<lambda>res. Some (res_body res)),
     createObjectURL = (\<lambda>b. ''blob:video'')\<rparr>"

section \<open>Playback scheduler: what the claims speak of\<close>

text \<open>
  The buffer an inbound message decodes to, when it has a non-empty payload that line 94
  and \<^verbatim>\<open>decodeAudioData\<close> both accept.
\<close>

definition decoded :: "LiveEnv \<Rightarrow> LiveServerMessage \<Rightarrow> AudioBuffer option" where
  "decoded env msg =
     (case audioData_of msg of
        None \<Rightarrow> None
      | Some d \<Rightarrow>
          if d = [] then None
          else (case atob env d of
                  Inl e \<Rightarrow> None
                | Inr bytes \<Rightarrow>
                    (case decodeAudioData env bytes 24000 1 of
                       Inl e \<Rightarrow> None
                     | Inr buffer \<Rightarrow> Some buffer)))"

text \<open>The value of the clock after each message of a sequence, in arrival order.\<close>

fun clocks :: "LiveEnv \<Rightarrow> (real \<times> LiveServerMessage) list \<Rightarrow> LiveView \<Rightarrow> real list" where
  "clocks env [] st = []"
| "clocks env ((now, msg) # chunks) st =
     (let st' = step env (OnMessage now msg) st
      in nextStartTimeRef st' # clocks env chunks st')"

text \<open>No buffer that a message of the sequence decodes to has a negative duration.\<close>

definition durations_nonneg :: "LiveEnv \<Rightarrow> (real \<times> LiveServerMessage) list \<Rightarrow> bool" where
  "durations_nonneg env chunks =
     list_all (\<lambda>(now, msg). case decoded env msg of None \<Rightarrow> True
                                | Some buffer \<Rightarrow> 0 \<le> duration buffer) chunks"

text \<open>An environment and a message for concrete runs: every payload decodes to half a second.\<close>

definition example_env :: LiveEnv where
  "example_env = \<lparr>constructorsThrow = False,
     atob = (\<lambda>s. if s = ''!'' then Inl InvalidCharacterError else Inr (map (\<lambda>c. of_char c) s)),
     decodeAudioData = (\<lambda>bytes rate channels.
        if odd (length bytes) then Inl (EnvError ''odd byte length'')
        else Inr \<lparr>sampleRate = rate, duration = 1 / 2\<rparr>),
     float32ToPCM16 = (\<lambda>xs. map (\<lambda>x. 0) xs),
     arrayBufferToBase64 = (\<lambda>ws. replicate (length ws) CHR ''A'')\<rparr>"

definition audio_message :: "string \<Rightarrow> LiveServerMessage" where
  "audio_message d = \<lparr>serverContent = Some \<lparr>modelTurn = Some \<lparr>parts = Some
     [\<lparr>inlineData = Some \<lparr>data = Some d\<rparr>\<rparr>]\<rparr>\<rparr>\<rparr>"

section \<open>Capture: what the claims speak of\<close>



section \<open>Playback scheduler\<close>

text \<open>
  One inbound message, seen from outside: nothing happens unless the message decodes and an
  output context is present; otherwise the buffer is scheduled at the later of the device
  time and the clock, and the clock moves to the end of the buffer.
\<close>

lemma onmessage_decoded:
  "step env (OnMessage now msg) st =
     (case decoded env msg of
        None \<Rightarrow> st
      | Some buffer \<Rightarrow>
          (case audioContextRef st of
             None \<Rightarrow> st
           | Some ctx \<Rightarrow>
               st\<lparr>scheduled := scheduled st @ [(ctx, buffer, max now (nextStartTimeRef st))],
                  nextStartTimeRef := max now (nextStartTimeRef st) + duration buffer\<rparr>))"
  by (simp add: step_def onmessage_def decoded_def truthy_def Let_def
           split: option.splits sum.splits)

lemma clock_step_mono:
  assumes "case decoded env msg of None \<Rightarrow> True | Some buffer \<Rightarrow> 0 \<le> duration buffer"
  shows "nextStartTimeRef st \<le> nextStartTimeRef (step env (OnMessage now msg) st)"
  using assms by (auto simp: onmessage_decoded split: option.splits)

lemma sorted_clocks:
  "durations_nonneg env chunks \<Longrightarrow> sorted (nextStartTimeRef st # clocks env chunks st)"
proof (induction chunks arbitrary: st)
  case Nil
  show ?case by simp
next
  case (Cons c chunks)
  obtain now msg where c: "c = (now, msg)" by (cases c)
  let ?st = "step env (OnMessage now msg) st"
  from Cons.prems c have
    head: "case decoded env msg of None \<Rightarrow> True | Some buffer \<Rightarrow> 0 \<le> duration buffer"
    and tail: "durations_nonneg env chunks"
    by (simp_all add: durations_nonneg_def)
  have "nextStartTimeRef st \<le> nextStartTimeRef ?st"
    using head by (rule clock_step_mono)
  moreover have "sorted (nextStartTimeRef ?st # clocks env chunks ?st)"
    using tail by (rule Cons.IH)
  ultimately show ?case
    using c by (auto simp: Let_def)
qed

text \<open>
  Claim C1. Whatever the device times at which the messages of a session arrive, and whatever
  they decode to, as long as no decoded buffer has a negative duration: in the list made of
  the clock before the first message and the clock after each message, every entry is at
  most the entry that follows it.
\<close>

theorem clock_monotone:
  assumes "durations_nonneg env chunks"
    and "Suc i < length (nextStartTimeRef st # clocks env chunks st)"
  shows "(nextStartTimeRef st # clocks env chunks st) ! i
           \<le> (nextStartTimeRef st # clocks env chunks st) ! Suc i"
  using sorted_clocks [OF assms(1)] assms(2)
  by (meson lessI sorted_iff_nth_mono_less less_imp_le)

text \<open>
  C1 at a concrete session: a message at device time 1, then one at device time 1/4 that
  arrives while the first buffer is still queued.
\<close>

theorem clock_monotone_witness:
  "durations_nonneg example_env [(1, audio_message ''ab''), (1 / 4, audio_message ''cd'')] \<and>
   Suc 1 < length (nextStartTimeRef (connect example_env initial) #
      clocks example_env [(1, audio_message ''ab''), (1 / 4, audio_message ''cd'')]
        (connect example_env initial)) \<and>
   (nextStartTimeRef (connect example_env initial) #
      clocks example_env [(1, audio_message ''ab''), (1 / 4, audio_message ''cd'')]
        (connect example_env initial)) ! 1
   \<le> (nextStartTimeRef (connect example_env initial) #
      clocks example_env [(1, audio_message ''ab''), (1 / 4, audio_message ''cd'')]
        (connect example_env initial)) ! Suc 1"
proof -
  have h1: "durations_nonneg example_env [(1, audio_message ''ab''), (1 / 4, audio_message ''cd'')]"
    by (simp add: durations_nonneg_def decoded_def example_env_def audio_message_def
        audioData_of_def first_elem_def)
  have h2: "Suc 1 < length (nextStartTimeRef (connect example_env initial) #
      clocks example_env [(1, audio_message ''ab''), (1 / 4, audio_message ''cd'')]
        (connect example_env initial))"
    by (simp add: Let_def)
  from clock_monotone [OF h1 h2] show ?thesis using h1 h2 by blast
qed

text \<open>
  Between two messages the clock stays where it is: only a message and \<^verbatim>\<open>connect\<close> (called
  directly, or by the button while not connected) assign it.
\<close>

lemma clock_kept_between_messages:
  assumes "ev \<noteq> CallConnect" and "ev = Click \<longrightarrow> isConnected st"
    and "\<forall>now msg. ev \<noteq> OnMessage now msg"
  shows "nextStartTimeRef (step env ev st) = nextStartTimeRef st"
  using assms
  by (cases ev)
     (auto simp: step_def onClick_def disconnect_def onopen_def startAudioStream_def
        onaudioprocess_def onclose_def onerror_def Let_def split: option.splits)

text \<open>No handler clears the output-context ref once \<^verbatim>\<open>connect\<close> has set it.\<close>

lemma audioContextRef_step:
  "audioContextRef st \<noteq> None \<Longrightarrow> audioContextRef (step env ev st) \<noteq> None"
proof (cases ev)
  case (OnMessage now msg)
  assume "audioContextRef st \<noteq> None"
  then show ?thesis
    unfolding OnMessage by (auto simp: onmessage_decoded split: option.splits)
qed (auto simp: step_def onClick_def connect_def disconnect_def onopen_def startAudioStream_def
        onaudioprocess_def onclose_def onerror_def Let_def split: option.splits)

lemma audioContextRef_run:
  "audioContextRef st \<noteq> None \<Longrightarrow> audioContextRef (run env evs st) \<noteq> None"
  unfolding run_def
proof (induction evs arbitrary: st)
  case Nil
  then show ?case by simp
next
  case (Cons ev evs)
  from Cons.prems have "audioContextRef (step env ev st) \<noteq> None"
    by (rule audioContextRef_step)
  then show ?case
    using Cons.IH by simp
qed



lemma step_with_exact: "step_with (+) env ev st = step env ev st"
  by (cases ev) (simp_all add: step_with_def step_def onmessage_with_def onmessage_def)





text \<open>
  Claim C6. A message that does not decode (no payload, an empty payload, a payload that
  line 94 rejects, or bytes that \<^verbatim>\<open>decodeAudioData\<close> rejects) leaves the whole state as it
  was: nothing is scheduled, the clock and the status keep their values. And a message
  after which the clock has a different value is one that decoded.
\<close>

theorem undecodable_chunk_dropped:
  "(decoded env msg = None \<longrightarrow> step env (OnMessage now msg) st = st) \<and>
   (nextStartTimeRef (step env (OnMessage now msg) st) \<noteq> nextStartTimeRef st \<longrightarrow>
      decoded env msg \<noteq> None)"
  by (auto simp: onmessage_decoded split: option.splits)

text \<open>
  C6 at concrete messages: three bytes are rejected by the example decoder and change
  nothing; two bytes decode and move the clock.
\<close>

theorem undecodable_chunk_dropped_witness:
  "decoded example_env (audio_message ''abc'') = None \<and>
   step example_env (OnMessage 5 (audio_message ''abc'')) (connect example_env initial)
     = connect example_env initial \<and>
   nextStartTimeRef (step example_env (OnMessage 5 (audio_message ''ab'')) (connect example_env initial))
     \<noteq> nextStartTimeRef (connect example_env initial) \<and>
   decoded example_env (audio_message ''ab'') \<noteq> None"
proof -
  have h: "decoded example_env (audio_message ''abc'') = None"
    by (simp add: decoded_def example_env_def audio_message_def audioData_of_def first_elem_def)
  have g: "nextStartTimeRef (step example_env (OnMessage 5 (audio_message ''ab'')) (connect example_env initial))
     \<noteq> nextStartTimeRef (connect example_env initial)"
    by (simp add: step_def onmessage_def truthy_def connect_def initial_def
        example_env_def audio_message_def audioData_of_def first_elem_def Let_def)
  from undecodable_chunk_dropped [of example_env "audio_message ''abc''" 5 "connect example_env initial"]
    undecodable_chunk_dropped [of example_env "audio_message ''ab''" 5 "connect example_env initial"]
  show ?thesis using h g by blast
qed

section \<open>PCM16 encoder\<close>

lemma pcm16_range: "- 32768 \<le> pcm16_of_sample v \<and> pcm16_of_sample v \<le> 32767"
proof -
  have "round (v * 32767) \<le> 32767" if "v < 1"
  proof -
    have "round (v * 32767) \<le> round (32767 :: real)"
      using that by (intro round_mono) simp
    then show ?thesis by simp
  qed
  moreover have "- 32767 \<le> round (v * 32767)" if "- 1 < v"
  proof -
    have "round (- 32767 :: real) \<le> round (v * 32767)"
      using that by (intro round_mono) simp
    then show ?thesis by simp
  qed
  ultimately show ?thesis
    by (auto simp: pcm16_of_sample_def)
qed

lemma sint_pcm16: "sint (word_of_int (pcm16_of_sample v) :: 16 word) = pcm16_of_sample v"
  using pcm16_range [of v]
  by (simp add: sint_sbintrunc' signed_take_bit_int_eq_self)

text \<open>
  Claim C3. The encoder keeps the length of its input, and the signed value of the 16-bit
  word it stores for a sample \<open>v\<close> is 32767 when \<open>v\<close> is at least 1, -32768 when
  \<open>v\<close> is at most -1, and \<open>round (v * 32767)\<close> in between: the integer computed for a
  sample always fits the word, so storing it never wraps.
\<close>

theorem pcm16_saturation:
  assumes "i < length inputData" and "v = inputData ! i"
  shows "length (float32ToPCM16_spec inputData) = length inputData \<and>
         (1 \<le> v \<longrightarrow> sint (float32ToPCM16_spec inputData ! i) = 32767) \<and>
         (v \<le> - 1 \<longrightarrow> sint (float32ToPCM16_spec inputData ! i) = - 32768) \<and>
         (- 1 < v \<and> v < 1 \<longrightarrow> sint (float32ToPCM16_spec inputData ! i) = round (v * 32767)) \<and>
         - 32768 \<le> sint (float32ToPCM16_spec inputData ! i) \<and>
         sint (float32ToPCM16_spec inputData ! i) \<le> 32767"
proof -
  have "sint (float32ToPCM16_spec inputData ! i) = pcm16_of_sample v"
    using assms by (simp add: float32ToPCM16_spec_def sint_pcm16)
  then show ?thesis
    using pcm16_range [of v] by (simp add: float32ToPCM16_spec_def pcm16_of_sample_def)
qed

text \<open>C3 at a concrete frame: one sample above the range, one inside, one below.\<close>

theorem pcm16_saturation_witness:
  "(1 :: nat) < length [2, - 1 / 2, - 7 :: real] \<and>
   map sint (float32ToPCM16_spec [2, - 1 / 2, - 7]) = [32767, - 16383, - 32768] \<and>
   sint (float32ToPCM16_spec [2, - 1 / 2, - 7] ! 1) = round ((- 1 / 2 :: real) * 32767)"
proof -
  have h: "(1 :: nat) < length [2, - 1 / 2, - 7 :: real]" by simp
  have vals: "map sint (float32ToPCM16_spec [2, - 1 / 2, - 7]) = [32767, - 16383, - 32768]"
    by (simp add: float32ToPCM16_spec_def pcm16_of_sample_def round_def)
  from pcm16_saturation [OF h refl] show ?thesis
    using h vals by simp
qed

section \<open>Video generation\<close>

lemma poll_effects_0: "poll_effects k 0 = []"
  by (simp add: poll_effects_def)

lemma poll_effects_Suc:
  "poll_effects k (Suc n) = [SetTimeout 5000, GetVideosOperation k] @ poll_effects (Suc k) n"
  by (simp add: poll_effects_def upt_conv_Cons)

lemma no_fetch_in_poll_effects: "Fetch url \<notin> set (poll_effects k n)"
  by (auto simp: poll_effects_def)

lemma running_at_Suc:
  "getVideosOperation env k operation = Inr operation' \<Longrightarrow>
     running_at env k operation (Suc m) = running_at env (Suc k) operation' m"
  by (simp add: running_at_def)

lemma running_at_0: "running_at env k operation 0 = (\<not> op_done operation)"
  by (simp add: running_at_def)

lemma poll_loop_completes:
  assumes "\<forall>m<n. running_at env k operation m"
    and "polled env k operation n = Inr completed"
    and "op_done completed"
  shows "poll_loop env k operation effs = Some (Inr completed, effs @ poll_effects k n)"
  using assms
proof (induction n arbitrary: k operation effs)
  case 0
  then show ?case
    by (simp add: poll_loop.simps poll_effects_0)
next
  case (Suc n)
  from Suc.prems(1) have "running_at env k operation 0" by simp
  then have running: "\<not> op_done operation" by (simp add: running_at_0)
  from Suc.prems(2) obtain operation' where
    next_op: "getVideosOperation env k operation = Inr operation'"
    and rest: "polled env (Suc k) operation' n = Inr completed"
    by (auto split: sum.splits)
  have "\<forall>m<n. running_at env (Suc k) operation' m"
    using Suc.prems(1) running_at_Suc [OF next_op] by auto
  from Suc.IH [OF this rest Suc.prems(3)]
  have "poll_loop env (Suc k) operation' (effs @ [SetTimeout 5000, GetVideosOperation k])
          = Some (Inr completed, (effs @ [SetTimeout 5000, GetVideosOperation k]) @ poll_effects (Suc k) n)" .
  then show ?case
    using running next_op
    by (subst poll_loop.simps) (simp add: poll_effects_Suc)
qed

lemma poll_loop_rejected:
  assumes "\<forall>m<n. running_at env k operation m"
    and "polled env k operation n = Inl e"
  shows "poll_loop env k operation effs = Some (Inl e, effs @ poll_effects k n)"
  using assms
proof (induction n arbitrary: k operation effs)
  case 0
  then show ?case by simp
next
  case (Suc n)
  from Suc.prems(1) have "running_at env k operation 0" by simp
  then have running: "\<not> op_done operation" by (simp add: running_at_0)
  show ?case
  proof (cases "getVideosOperation env k operation")
    case (Inl e')
    then have "e' = e" using Suc.prems(2) by simp
    have "n = 0"
    proof (rule ccontr)
      assume "n \<noteq> 0"
      then have "running_at env k operation (Suc 0)" using Suc.prems(1) by simp
      then show False using Inl by (simp add: running_at_def)
    qed
    then show ?thesis
      using running Inl \<open>e' = e\<close>
      by (subst poll_loop.simps) (simp add: poll_effects_Suc poll_effects_0)
  next
    case (Inr operation')
    then have rest: "polled env (Suc k) operation' n = Inl e"
      using Suc.prems(2) by simp
    have "\<forall>m<n. running_at env (Suc k) operation' m"
      using Suc.prems(1) running_at_Suc [OF Inr] by auto
    from Suc.IH [OF this rest]
    have "poll_loop env (Suc k) operation' (effs @ [SetTimeout 5000, GetVideosOperation k])
          = Some (Inl e, (effs @ [SetTimeout 5000, GetVideosOperation k]) @ poll_effects (Suc k) n)" .
    then show ?thesis
      using running Inr
      by (subst poll_loop.simps) (simp add: poll_effects_Suc)
  qed
qed

lemma poll_loop_stops:
  assumes "poll_loop env k operation effs = Some y"
  shows "\<exists>n. \<not> running_at env k operation n"
proof (rule poll_loop.raw_induct
    [where P = "\<lambda>env k operation effs y. \<exists>n. \<not> running_at env k operation n", OF _ assms])
  fix f env k operation effs y
  assume IH: "\<And>env' k' operation' effs' y'. f env' k' operation' effs' = Some y' \<Longrightarrow>
                \<exists>n. \<not> running_at env' k' operation' n"
    and body: "(if \<not> op_done operation
      then case getVideosOperation env k operation of
           Inl e \<Rightarrow> Some (Inl e, effs @ [SetTimeout 5000, GetVideosOperation k])
           | Inr operation' \<Rightarrow>
               f env (Suc k) operation' (effs @ [SetTimeout 5000, GetVideosOperation k])
      else Some (Inr operation, effs)) = Some y"
  show "\<exists>n. \<not> running_at env k operation n"
  proof (cases "op_done operation")
    case True
    then have "\<not> running_at env k operation 0" by (simp add: running_at_0)
    then show ?thesis ..
  next
    case False
    show ?thesis
    proof (cases "getVideosOperation env k operation")
      case (Inl e)
      then have "\<not> running_at env k operation (Suc 0)" by (simp add: running_at_def)
      then show ?thesis ..
    next
      case (Inr operation')
      with False body have "f env (Suc k) operation' (effs @ [SetTimeout 5000, GetVideosOperation k]) = Some y"
        by simp
      then have "\<exists>n. \<not> running_at env (Suc k) operation' n" by (rule IH)
      then obtain n where "\<not> running_at env (Suc k) operation' n" ..
      then have "\<not> running_at env k operation (Suc n)"
        by (simp add: running_at_Suc [OF Inr])
      then show ?thesis ..
    qed
  qed
qed

text \<open>The loop has no bound: against a server that never reports completion it never ends.\<close>

lemma poll_loop_never_ends:
  assumes "\<forall>n. running_at env k operation n"
  shows "poll_loop env k operation effs = None"
proof (cases "poll_loop env k operation effs")
  case None
  then show ?thesis .
next
  case (Some y)
  from poll_loop_stops [OF Some] assms show ?thesis by blast
qed

lemma poll_loop_result:
  assumes "poll_loop env k operation effs = Some y"
  shows "\<exists>n. (\<forall>m<n. running_at env k operation m) \<and>
           ((\<exists>e. polled env k operation n = Inl e \<and> y = (Inl e, effs @ poll_effects k n)) \<or>
            (\<exists>completed. polled env k operation n = Inr completed \<and> op_done completed \<and>
                 y = (Inr completed, effs @ poll_effects k n)))"
proof -
  from poll_loop_stops [OF assms] have "\<exists>n. \<not> running_at env k operation n" .
  then obtain n where stop: "\<not> running_at env k operation n"
    and before: "\<forall>m<n. running_at env k operation m"
    by (auto simp: exists_least_iff [of "\<lambda>n. \<not> running_at env k operation n"])
  show ?thesis
  proof (cases "polled env k operation n")
    case (Inl e)
    from poll_loop_rejected [OF before Inl] assms have "y = (Inl e, effs @ poll_effects k n)"
      by simp
    with before Inl show ?thesis by blast
  next
    case (Inr completed)
    with stop have fin: "op_done completed" by (simp add: running_at_def)
    from poll_loop_completes [OF before Inr fin] assms
    have "y = (Inr completed, effs @ poll_effects k n)" by simp
    with before Inr fin show ?thesis by blast
  qed
qed

lemma running_before_iff:
  "running_before env operation n \<longleftrightarrow> (\<forall>m<n. running_at env 0 operation m)"
  by (auto simp: running_before_def running_at_def list_all_iff)

lemma snd_fetch_video:
  "snd (fetch_video env completed effs) =
     effs @ (case downloadLink_of completed of
        None \<Rightarrow> []
      | Some u \<Rightarrow> if u = [] then [] else [Fetch (u @ ''&key='' @ API_KEY env)])"
  by (auto simp: fetch_video_def Let_def truthy_def split: option.splits)

lemma generateVideo_completed:
  assumes "generateVideos env (video_parameters prompt_text ratio startImageBase64) = Inr operation"
    and "running_before env operation n"
    and "polled env 0 operation n = Inr completed"
    and "op_done completed"
  shows "generateVideo env prompt_text ratio startImageBase64 =
           Some (fetch_video env completed
                   ([GenerateVideos (video_parameters prompt_text ratio startImageBase64)]
                    @ poll_effects 0 n))"
  using assms(1) poll_loop_completes [OF assms(2) [unfolded running_before_iff] assms(3,4)]
  by (simp add: generateVideo_def Let_def)

lemma fetch_video_effects:
  "\<exists>result. fetch_video env completed ([GenerateVideos params] @ poll_effects 0 n) =
     (result, completed_run_effects env params n completed)"
proof -
  have "snd (fetch_video env completed ([GenerateVideos params] @ poll_effects 0 n)) =
          completed_run_effects env params n completed"
    by (simp add: snd_fetch_video completed_run_effects_def)
  then show ?thesis
    by (cases "fetch_video env completed ([GenerateVideos params] @ poll_effects 0 n)") simp
qed

lemma fst_fetch_video_failed:
  "fst (fetch_video env completed effs) = Inl (Error ''Video generation failed'')
     \<longleftrightarrow> \<not> truthy (downloadLink_of completed)"
  by (auto simp: fetch_video_def Let_def split: option.splits)

lemma fst_fetch_video_ok:
  "downloadLink_of completed = Some u \<Longrightarrow> u \<noteq> [] \<Longrightarrow>
   fetch env (u @ ''&key='' @ API_KEY env) = Some videoRes \<Longrightarrow> blob env videoRes = Some videoBlob \<Longrightarrow>
   fst (fetch_video env completed effs) = Inr (createObjectURL env videoBlob)"
  by (simp add: fetch_video_def Let_def truthy_def)

lemma fst_fetch_video_offline:
  "downloadLink_of completed = Some u \<Longrightarrow> u \<noteq> [] \<Longrightarrow>
   fetch env (u @ ''&key='' @ API_KEY env) = None \<or>
     (\<exists>videoRes. fetch env (u @ ''&key='' @ API_KEY env) = Some videoRes \<and> blob env videoRes = None) \<Longrightarrow>
   fst (fetch_video env completed effs) = Inl TypeError"
  by (auto simp: fetch_video_def Let_def truthy_def)

lemma example_video_start:
  "generateVideos (example_video_env link online) params = Inr running_operation"
  by (simp add: example_video_env_def)

lemma example_video_running: "running_before (example_video_env link online) running_operation 2"
  by (simp add: running_before_def example_video_env_def running_operation_def
      numeral_2_eq_2)

lemma example_video_polled:
  "polled (example_video_env link online) 0 running_operation 2 = Inr (completed_operation link)"
  by (simp add: example_video_env_def numeral_2_eq_2)

lemma example_video_done: "op_done (completed_operation link)"
  by (simp add: completed_operation_def)

lemma example_video_link: "downloadLink_of (completed_operation link) = link"
  by (simp add: downloadLink_of_def completed_operation_def first_elem_def)

lemma example_video_run:
  "generateVideo (example_video_env (Some ''https://v/1?alt=media'') online) ''a cat'' Ratio_16_9 None =
     Some (if online then Inr ''blob:video'' else Inl TypeError,
           [GenerateVideos (video_parameters ''a cat'' Ratio_16_9 None),
            SetTimeout 5000, GetVideosOperation 0, SetTimeout 5000, GetVideosOperation 1,
            Fetch ''https://v/1?alt=media&key=K''])"
  by (simp add: generateVideo_def poll_loop.simps example_video_env_def running_operation_def
        completed_operation_def fetch_video_def downloadLink_of_def first_elem_def truthy_def
        Let_def)

text \<open>
  Claim C9. Let the call that starts the operation succeed. If the operations the client
  holds before its \<open>n\<close>-th poll are all unfinished and the one it holds after \<open>n\<close>
  polls is done, the function returns, and what it did is: start the operation, then
  \<open>n\<close> times wait 5000 ms and poll, then (when the finished operation carries a link)
  fetch that link, and nothing else. Conversely a run that returns and has fetched anything
  is of this form: the fetch comes after an operation with the done flag, never before.
\<close>

theorem generateVideo_polls_until_done:
  assumes "generateVideos env (video_parameters prompt_text ratio startImageBase64) = Inr operation"
  shows "(running_before env operation n \<and> polled env 0 operation n = Inr completed \<and>
            op_done completed \<longrightarrow>
          (\<exists>result. generateVideo env prompt_text ratio startImageBase64 =
             Some (result, completed_run_effects env
                     (video_parameters prompt_text ratio startImageBase64) n completed))) \<and>
         (generateVideo env prompt_text ratio startImageBase64 = Some (outcome, effs) \<and>
            Fetch url \<in> set effs \<longrightarrow>
          (\<exists>k final. running_before env operation k \<and> polled env 0 operation k = Inr final \<and>
             op_done final \<and>
             effs = completed_run_effects env
                      (video_parameters prompt_text ratio startImageBase64) k final))"
proof (intro conjI impI)
  assume "running_before env operation n \<and> polled env 0 operation n = Inr completed \<and>
            op_done completed"
  then have r: "running_before env operation n" and p: "polled env 0 operation n = Inr completed"
    and d: "op_done completed" by simp_all
  have "generateVideo env prompt_text ratio startImageBase64 =
           Some (fetch_video env completed
                   ([GenerateVideos (video_parameters prompt_text ratio startImageBase64)]
                    @ poll_effects 0 n))"
    by (rule generateVideo_completed [OF assms r p d])
  then show "\<exists>result. generateVideo env prompt_text ratio startImageBase64 =
             Some (result, completed_run_effects env
                     (video_parameters prompt_text ratio startImageBase64) n completed)"
    using fetch_video_effects [of env completed "video_parameters prompt_text ratio startImageBase64" n]
    by auto
next
  let ?params = "video_parameters prompt_text ratio startImageBase64"
  assume run: "generateVideo env prompt_text ratio startImageBase64 = Some (outcome, effs) \<and>
            Fetch url \<in> set effs"
  then obtain y where loop: "poll_loop env 0 operation [GenerateVideos ?params] = Some y"
    using assms by (auto simp: generateVideo_def Let_def split: option.splits)
  from poll_loop_result [OF loop] obtain k where
    before: "\<forall>m<k. running_at env 0 operation m"
    and stop: "(\<exists>e. polled env 0 operation k = Inl e \<and>
                  y = (Inl e, [GenerateVideos ?params] @ poll_effects 0 k)) \<or>
               (\<exists>final. polled env 0 operation k = Inr final \<and> op_done final \<and>
                  y = (Inr final, [GenerateVideos ?params] @ poll_effects 0 k))"
    by blast
  from stop show "\<exists>k final. running_before env operation k \<and> polled env 0 operation k = Inr final \<and>
             op_done final \<and> effs = completed_run_effects env ?params k final"
  proof
    assume "\<exists>e. polled env 0 operation k = Inl e \<and>
                  y = (Inl e, [GenerateVideos ?params] @ poll_effects 0 k)"
    then have "effs = [GenerateVideos ?params] @ poll_effects 0 k"
      using run loop assms by (auto simp: generateVideo_def Let_def)
    then have False using run by (simp add: no_fetch_in_poll_effects)
    then show ?thesis ..
  next
    assume "\<exists>final. polled env 0 operation k = Inr final \<and> op_done final \<and>
                  y = (Inr final, [GenerateVideos ?params] @ poll_effects 0 k)"
    then obtain final where final: "polled env 0 operation k = Inr final" "op_done final"
      "y = (Inr final, [GenerateVideos ?params] @ poll_effects 0 k)" by blast
    then have "(outcome, effs) = fetch_video env final ([GenerateVideos ?params] @ poll_effects 0 k)"
      using run loop assms by (auto simp: generateVideo_def Let_def)
    then have "effs = completed_run_effects env ?params k final"
      using fetch_video_effects [of env final ?params k] by auto
    with before final show ?thesis
      by (auto simp: running_before_iff)
  qed
qed


text \<open>
  C9 at a concrete server that reports completion at the second poll: two waits of 5000 ms,
  two polls, then the fetch.
\<close>

theorem generateVideo_polls_until_done_witness:
  "generateVideos (example_video_env (Some ''https://v/1?alt=media'') True)
      (video_parameters ''a cat'' Ratio_16_9 None) = Inr running_operation \<and>
   running_before (example_video_env (Some ''https://v/1?alt=media'') True) running_operation 2 \<and>
   polled (example_video_env (Some ''https://v/1?alt=media'') True) 0 running_operation 2
     = Inr (completed_operation (Some ''https://v/1?alt=media'')) \<and>
   op_done (completed_operation (Some ''https://v/1?alt=media'')) \<and>
   (\<exists>result. generateVideo (example_video_env (Some ''https://v/1?alt=media'') True)
        ''a cat'' Ratio_16_9 None =
      Some (result, completed_run_effects (example_video_env (Some ''https://v/1?alt=media'') True)
         (video_parameters ''a cat'' Ratio_16_9 None) 2
         (completed_operation (Some ''https://v/1?alt=media'')))) \<and>
   completed_run_effects (example_video_env (Some ''https://v/1?alt=media'') True)
         (video_parameters ''a cat'' Ratio_16_9 None) 2
         (completed_operation (Some ''https://v/1?alt=media'')) =
     [GenerateVideos (video_parameters ''a cat'' Ratio_16_9 None),
      SetTimeout 5000, GetVideosOperation 0, SetTimeout 5000, GetVideosOperation 1,
      Fetch ''https://v/1?alt=media&key=K'']"
proof -
  let ?env = "example_video_env (Some ''https://v/1?alt=media'') True"
  let ?done = "completed_operation (Some ''https://v/1?alt=media'')"
  have h1: "generateVideos ?env (video_parameters ''a cat'' Ratio_16_9 None) = Inr running_operation"
    by (rule example_video_start)
  have h2: "running_before ?env running_operation 2 \<and>
            polled ?env 0 running_operation 2 = Inr ?done \<and> op_done ?done"
    by (simp add: example_video_running example_video_polled example_video_done)
  have effs: "completed_run_effects ?env (video_parameters ''a cat'' Ratio_16_9 None) 2 ?done =
     [GenerateVideos (video_parameters ''a cat'' Ratio_16_9 None),
      SetTimeout 5000, GetVideosOperation 0, SetTimeout 5000, GetVideosOperation 1,
      Fetch ''https://v/1?alt=media&key=K'']"
    by (simp add: completed_run_effects_def poll_effects_def example_video_link
        example_video_env_def numeral_2_eq_2)
  from generateVideo_polls_until_done [OF h1, of 2 ?done] h2
  have "\<exists>result. generateVideo ?env ''a cat'' Ratio_16_9 None =
      Some (result, completed_run_effects ?env (video_parameters ''a cat'' Ratio_16_9 None) 2 ?done)"
    by blast
  then show ?thesis
    using h1 h2 effs by simp
qed

text \<open>
  Claim C10, as stated, fails when the download does not succeed: the finished operation
  carries a link, and the function still throws, with the error of the failed fetch.
\<close>

theorem generateVideo_throws_with_link_counterexample:
  "downloadLink_of (completed_operation (Some ''https://v/1?alt=media''))
     = Some ''https://v/1?alt=media'' \<and>
   generateVideo (example_video_env (Some ''https://v/1?alt=media'') False) ''a cat'' Ratio_16_9 None =
     Some (Inl TypeError,
           [GenerateVideos (video_parameters ''a cat'' Ratio_16_9 None),
            SetTimeout 5000, GetVideosOperation 0, SetTimeout 5000, GetVideosOperation 1,
            Fetch ''https://v/1?alt=media&key=K''])"
  by (simp add: example_video_link example_video_run)

text \<open>
  Claim C10, amended. Once the polled operation has completed, the function returns or
  throws, it throws the error with the message "Video generation failed" if and only if the
  first generated video of the completed operation carries no non-empty link; with such a
  link it fetches the link with the key appended and returns the object URL of the fetched
  blob when the fetch and the reading of the blob succeed, and throws their error (never
  "Video generation failed") when one of them fails.
\<close>

theorem generateVideo_failed_iff_no_link:
  assumes "generateVideos env (video_parameters prompt_text ratio startImageBase64) = Inr operation"
    and "running_before env operation n"
    and "polled env 0 operation n = Inr completed"
    and "op_done completed"
  shows "\<exists>outcome effs.
           generateVideo env prompt_text ratio startImageBase64 = Some (outcome, effs) \<and>
           (outcome = Inl (Error ''Video generation failed'')
              \<longleftrightarrow> \<not> truthy (downloadLink_of completed)) \<and>
           (\<forall>u videoRes videoBlob.
              downloadLink_of completed = Some u \<and> u \<noteq> [] \<and>
              fetch env (u @ ''&key='' @ API_KEY env) = Some videoRes \<and>
              blob env videoRes = Some videoBlob
              \<longrightarrow> outcome = Inr (createObjectURL env videoBlob)) \<and>
           (\<forall>u. downloadLink_of completed = Some u \<and> u \<noteq> [] \<and>
              (fetch env (u @ ''&key='' @ API_KEY env) = None \<or>
               (\<exists>videoRes. fetch env (u @ ''&key='' @ API_KEY env) = Some videoRes \<and>
                   blob env videoRes = None))
              \<longrightarrow> outcome = Inl TypeError)"
proof -
  let ?effs = "[GenerateVideos (video_parameters prompt_text ratio startImageBase64)] @ poll_effects 0 n"
  have run: "generateVideo env prompt_text ratio startImageBase64 =
               Some (fst (fetch_video env completed ?effs), snd (fetch_video env completed ?effs))"
    using generateVideo_completed [OF assms] by simp
  have "fst (fetch_video env completed ?effs) = Inl (Error ''Video generation failed'')
          \<longleftrightarrow> \<not> truthy (downloadLink_of completed)"
    by (rule fst_fetch_video_failed)
  moreover have "\<forall>u videoRes videoBlob.
              downloadLink_of completed = Some u \<and> u \<noteq> [] \<and>
              fetch env (u @ ''&key='' @ API_KEY env) = Some videoRes \<and>
              blob env videoRes = Some videoBlob
              \<longrightarrow> fst (fetch_video env completed ?effs) = Inr (createObjectURL env videoBlob)"
    using fst_fetch_video_ok by blast
  moreover have "\<forall>u. downloadLink_of completed = Some u \<and> u \<noteq> [] \<and>
              (fetch env (u @ ''&key='' @ API_KEY env) = None \<or>
               (\<exists>videoRes. fetch env (u @ ''&key='' @ API_KEY env) = Some videoRes \<and>
                   blob env videoRes = None))
              \<longrightarrow> fst (fetch_video env completed ?effs) = Inl TypeError"
    using fst_fetch_video_offline by blast
  ultimately show ?thesis
    using run by blast
qed

text \<open>
  C10 amended, at the concrete server: with a link and a working download the function
  returns the object URL; without a link it throws "Video generation failed".
\<close>

theorem generateVideo_failed_iff_no_link_witness:
  "generateVideos (example_video_env None True)
      (video_parameters ''a cat'' Ratio_16_9 None) = Inr running_operation \<and>
   running_before (example_video_env None True) running_operation 2 \<and>
   polled (example_video_env None True) 0 running_operation 2 = Inr (completed_operation None) \<and>
   op_done (completed_operation None) \<and>
   \<not> truthy (downloadLink_of (completed_operation None)) \<and>
   (\<exists>effs. generateVideo (example_video_env None True) ''a cat'' Ratio_16_9 None =
      Some (Inl (Error ''Video generation failed''), effs)) \<and>
   generateVideo (example_video_env (Some ''https://v/1?alt=media'') True) ''a cat'' Ratio_16_9 None =
     Some (Inr ''blob:video'',
           [GenerateVideos (video_parameters ''a cat'' Ratio_16_9 None),
            SetTimeout 5000, GetVideosOperation 0, SetTimeout 5000, GetVideosOperation 1,
            Fetch ''https://v/1?alt=media&key=K''])"
proof -
  let ?env = "example_video_env None True"
  have h1: "generateVideos ?env (video_parameters ''a cat'' Ratio_16_9 None) = Inr running_operation"
    by (rule example_video_start)
  have h2: "running_before ?env running_operation 2" by (rule example_video_running)
  have h3: "polled ?env 0 running_operation 2 = Inr (completed_operation None)"
    by (rule example_video_polled)
  have h4: "op_done (completed_operation None)" by (rule example_video_done)
  have nolink: "\<not> truthy (downloadLink_of (completed_operation None))"
    by (simp add: example_video_link truthy_def)
  from generateVideo_failed_iff_no_link [OF h1 h2 h3 h4] nolink
  have "\<exists>effs. generateVideo ?env ''a cat'' Ratio_16_9 None =
      Some (Inl (Error ''Video generation failed''), effs)"
    by blast
  then show ?thesis
    using h1 h2 h3 h4 nolink example_video_run [of True] by simp
qed

section \<open>Session lifecycle\<close>

lemmas handler_defs =
  run_def step_def onClick_def connect_def disconnect_def onopen_def startAudioStream_def
  getUserMedia_settled_def onaudioprocess_def onclose_def onerror_def modify_def
  promise_then_def promise_resolve_def promise_reject_def run_reaction_def new_session_def
  initial_def example_env_def Let_def

lemma run_append: "run env (xs @ ys) st = run env ys (run env xs st)"
  by (simp add: run_def)

lemma run_snoc: "run env (xs @ [x]) st = step env x (run env xs st)"
  by (simp add: run_def)

text \<open>
  The function returned by \<^verbatim>\<open>startAudioStream\<close> would release everything the capture
  holds.
\<close>

lemma cleanup_releases:
  "micStream (cleanup c) = MicStopped \<and> inputContext (cleanup c) = Closed \<and>
   \<not> graphConnected (cleanup c)"
  by (simp add: cleanup_def)

text \<open>
  No handler calls it: a capture whose microphone is live is the same capture after any
  event, and so after any sequence of events.
\<close>

lemma live_capture_step:
  assumes "i < length (captures st)" and "micStream (captures st ! i) = MicLive"
  shows "i < length (captures (step env ev st)) \<and> captures (step env ev st) ! i = captures st ! i"
  using assms
  by (cases ev)
     (auto simp: step_def onClick_def connect_def disconnect_def onopen_def
        startAudioStream_def getUserMedia_settled_def onaudioprocess_def onclose_def
        onerror_def modify_def onmessage_def Let_def nth_append nth_list_update
        split: option.splits sum.splits)

lemma live_capture_run:
  assumes "i < length (captures st)" and "micStream (captures st ! i) = MicLive"
  shows "i < length (captures (run env evs st)) \<and> captures (run env evs st) ! i = captures st ! i"
proof (induction evs rule: rev_induct)
  case Nil
  show ?case using assms by (simp add: run_def)
next
  case (snoc ev evs)
  then have "i < length (captures (run env evs st))"
    and "micStream (captures (run env evs st) ! i) = MicLive"
    using assms by simp_all
  from live_capture_step [OF this] snoc show ?case
    by (simp add: run_snoc)
qed

text \<open>Without a session \<^verbatim>\<open>disconnect\<close> changes nothing.\<close>

lemma disconnect_never_connected: "disconnect initial = initial"
  by (simp add: disconnect_def initial_def)

text \<open>
  Claim C4, evaluated on the code: connect by the button, the session opens, the microphone
  is granted, then the button again, which now calls \<^verbatim>\<open>disconnect\<close>. The status is
  "Disconnected", the session is closed and the output context is closed, and the capture is
  as it was: input context running, microphone live, graph connected.
\<close>

theorem capture_survives_disconnect:
  "run example_env [Click, OnOpen 0, SessionResolved 0, GetUserMedia 0 True, Click] initial =
     \<lparr>isConnected = False, status = ''Disconnected'', audioContextRef = Some 0,
      nextStartTimeRef = 0, sessionPromiseRef = Some 0,
      sessions = [\<lparr>promise = Fulfilled, reactions = [], realtimeInputs = [], closed = True\<rparr>],
      outputContexts = [Closed],
      captures = [\<lparr>capSession = 0, inputContext = Running, micStream = MicLive,
                   graphConnected = True\<rparr>],
      scheduled = []\<rparr>"
  by (simp add: handler_defs)

text \<open>
  Claim C5, evaluated on the code: the button pressed twice before the first session has
  opened. After the first press the status is "Connecting..." and the component is not
  connected, so the second press calls \<^verbatim>\<open>connect\<close> again: there are two sessions and two
  output contexts, none closed. When both have opened and the button is pressed once more,
  only the second session is closed; the first stays open with its capture live.
\<close>

theorem second_connect_opens_second_session:
  "status (run example_env [Click] initial) = ''Connecting...'' \<and>
   isConnected (run example_env [Click] initial) = False \<and>
   sessions (run example_env [Click, Click] initial) = [new_session, new_session] \<and>
   outputContexts (run example_env [Click, Click] initial) = [Running, Running] \<and>
   map closed (sessions (run example_env
      [Click, Click, OnOpen 0, SessionResolved 0, GetUserMedia 0 True,
       OnOpen 1, SessionResolved 1, GetUserMedia 1 True, Click] initial)) = [False, True] \<and>
   map micStream (captures (run example_env
      [Click, Click, OnOpen 0, SessionResolved 0, GetUserMedia 0 True,
       OnOpen 1, SessionResolved 1, GetUserMedia 1 True, Click] initial)) = [MicLive, MicLive]"
  by (simp add: handler_defs)

text \<open>
  Claim C7, evaluated on the code: \<^verbatim>\<open>disconnect\<close> called twice on a live session. Neither
  call fails, and afterwards the microphone is still live and the input context still
  running. Called twice with no session ever connected, it leaves the initial state.
\<close>

theorem double_disconnect_keeps_microphone:
  "captures (run example_env
      [CallConnect, OnOpen 0, SessionResolved 0, GetUserMedia 0 True,
       CallDisconnect, CallDisconnect] initial) =
     [\<lparr>capSession = 0, inputContext = Running, micStream = MicLive, graphConnected = True\<rparr>] \<and>
   status (run example_env
      [CallConnect, OnOpen 0, SessionResolved 0, GetUserMedia 0 True,
       CallDisconnect, CallDisconnect] initial) = ''Disconnected'' \<and>
   run example_env [CallDisconnect, CallDisconnect] initial = initial"
  by (simp add: handler_defs)

section \<open>Frames and the open acknowledgment\<close>














end
